theory Spec2Isabelle
  imports Main "HOL-Library.Sublist"
begin

section \<open>Encoder argument builder (src/transcode.c, include/transcode.h)\<close>

text \<open>
  The two enums and the configuration struct of \<^verbatim>\<open>transcode.h\<close>. The C field
  \<^verbatim>\<open>surround51\<close> is an \<^verbatim>\<open>int\<close> that the code only tests for being non-zero;
  \<^verbatim>\<open>bitrate_kbps\<close> is an \<^verbatim>\<open>int\<close> too. No arithmetic is done on either, so
  both are modelled as \<open>int\<close>.
\<close>

datatype TranscodeBackend =
    TRANSCODE_BACKEND_SOFTWARE
  | TRANSCODE_BACKEND_QSV
  | TRANSCODE_BACKEND_NVENC
  | TRANSCODE_BACKEND_VAAPI

datatype TranscodeCodec =
    TRANSCODE_CODEC_H264
  | TRANSCODE_CODEC_HEVC
  | TRANSCODE_CODEC_AV1
  | TRANSCODE_CODEC_COPY

record TranscodeConfig =
  backend :: TranscodeBackend
  codec :: TranscodeCodec
  bitrate_kbps :: int
  surround51 :: int

text \<open>The three file-level constants of \<^verbatim>\<open>transcode.c\<close>.\<close>

definition default_audio_bitrate :: string where
  "default_audio_bitrate = ''128k''"

definition default_aac_surround_bitrate :: string where
  "default_aac_surround_bitrate = ''384k''"

definition default_surround_bitrate :: string where
  "default_surround_bitrate = ''384k''"

text \<open>The buffer \<^verbatim>\<open>argv\<close> is allocated for \<^verbatim>\<open>capacity = 64\<close> pointers.\<close>

definition argv_capacity :: nat where
  "argv_capacity = 64"

text \<open>
  \<^verbatim>\<open>build_ffmpeg_args\<close> as the vector it builds: every \<^verbatim>\<open>argv[argc++] = s\<close>
  appends one string; the result is the vector \<^verbatim>\<open>argv[0..argc-1]\<close> (the terminating
  \<^verbatim>\<open>NULL\<close> at \<^verbatim>\<open>argv[argc]\<close> is not part of the list). The branches are in the order
  of the source. The writes into the allocated buffer are spelled out further down.
\<close>

definition build_ffmpeg_args :: "string \<Rightarrow> TranscodeConfig \<Rightarrow> string list" where
  "build_ffmpeg_args input_url config =
     [''ffmpeg''] @
     (if backend config = TRANSCODE_BACKEND_VAAPI then
        [''-init_hw_device'', ''vaapi=gpu:/dev/dri/renderD128'', ''-filter_hw_device'', ''gpu'']
      else if backend config = TRANSCODE_BACKEND_QSV then
        [''-init_hw_device'', ''qsv=hw'', ''-filter_hw_device'', ''hw'']
      else []) @
     [''-re''] @
     [''-i'', input_url] @
     (if codec config = TRANSCODE_CODEC_COPY then
        [''-c:v'', ''copy'']
      else
        (if backend config = TRANSCODE_BACKEND_SOFTWARE then
           [''-c:v'',
            (if codec config = TRANSCODE_CODEC_HEVC then ''libx265''
             else if codec config = TRANSCODE_CODEC_AV1 then ''libsvtav1''
             else ''libx264''),
            ''-preset'', ''fast'', ''-crf'', ''23'']
         else if backend config = TRANSCODE_BACKEND_NVENC then
           [''-c:v'',
            (if codec config = TRANSCODE_CODEC_HEVC then ''hevc_nvenc''
             else if codec config = TRANSCODE_CODEC_AV1 then ''av1_nvenc''
             else ''h264_nvenc''),
            ''-preset'', ''p4'', ''-rc'', ''constqp'', ''-qp'', ''23'']
         else if backend config = TRANSCODE_BACKEND_QSV then
           [''-vf'', ''yadif=0:-1:0,format=nv12,hwupload=extra_hw_frames=64,format=qsv'',
            ''-c:v'',
            (if codec config = TRANSCODE_CODEC_HEVC then ''hevc_qsv''
             else if codec config = TRANSCODE_CODEC_AV1 then ''av1_qsv''
             else ''h264_qsv''),
            ''-global_quality'', ''23'']
         else if backend config = TRANSCODE_BACKEND_VAAPI then
           [''-vf'', ''format=nv12,hwupload'',
            ''-c:v'',
            (if codec config = TRANSCODE_CODEC_HEVC then ''hevc_vaapi''
             else if codec config = TRANSCODE_CODEC_AV1 then ''av1_vaapi''
             else ''h264_vaapi''),
            ''-qp'', ''23'']
         else []) @
        (if codec config = TRANSCODE_CODEC_AV1 then
           (if surround51 config \<noteq> 0 then
              [''-af'', ''channelmap=channel_layout=5.1'',
               ''-c:a'', ''libopus'',
               ''-mapping_family'', ''1'',
               ''-b:a'', default_surround_bitrate]
            else
              [''-ac'', ''2'',
               ''-c:a'', ''libopus'',
               ''-b:a'', default_audio_bitrate])
         else
           (if surround51 config \<noteq> 0 then
              [''-af'', ''channelmap=channel_layout=5.1'',
               ''-c:a'', ''aac'',
               ''-b:a'', default_aac_surround_bitrate]
            else
              [''-ac'', ''2'',
               ''-c:a'', ''aac'',
               ''-b:a'', default_audio_bitrate]))) @
     [''-f''] @
     (if codec config = TRANSCODE_CODEC_AV1 then
        [''webm'']
      else
        [''mp4'', ''-movflags'', ''frag_keyframe+empty_moov+default_base_moof'']) @
     [''pipe:1'']"

text \<open>
  An option and its value next to each other in an argument vector: the shape in which
  the builder emits every encoder, filter and bitrate setting.
\<close>

fun has_pair :: "string \<Rightarrow> string \<Rightarrow> string list \<Rightarrow> bool" where
  "has_pair k v (a # b # rest) = ((a = k \<and> b = v) \<or> has_pair k v (b # rest))"
| "has_pair k v _ = False"


subsection \<open>The builder on its buffer\<close>

text \<open>
  The same function with its memory written out. \<^verbatim>\<open>malloc(sizeof(char*) * capacity)\<close>
  hands back 64 cells that hold whatever the heap left in them: \<open>heap i\<close> is the content
  of cell \<open>i\<close> before the call, \<^verbatim>\<open>NULL\<close> (\<open>None\<close>) or a pointer to some string.
  The state is the buffer with \<^verbatim>\<open>argc\<close>; \<open>None\<close> stands for a write outside the
  allocation.
\<close>

type_synonym argv_state = "string option list \<times> nat"

definition malloc_argv :: "(nat \<Rightarrow> string option) \<Rightarrow> string option list" where
  "malloc_argv heap = map heap [0..<argv_capacity]"

text \<open>One assignment \<^verbatim>\<open>argv[argc++] = s\<close>.\<close>

fun store :: "string \<Rightarrow> argv_state option \<Rightarrow> argv_state option" where
  "store s None = None"
| "store s (Some (argv, argc)) =
     (if argc < length argv then Some (argv[argc := Some s], Suc argc) else None)"

text \<open>A run of such assignments, in their order.\<close>

definition stores :: "string list \<Rightarrow> argv_state option \<Rightarrow> argv_state option" where
  "stores ss a = fold store ss a"

text \<open>\<^verbatim>\<open>argv[argc] = NULL\<close>.\<close>

fun terminate :: "argv_state option \<Rightarrow> argv_state option" where
  "terminate None = None"
| "terminate (Some (argv, argc)) =
     (if argc < length argv then Some (argv[argc := None], argc) else None)"

text \<open>
  \<^verbatim>\<open>build_ffmpeg_args\<close>, statement by statement; the result is \<^verbatim>\<open>argv\<close> with
  \<^verbatim>\<open>*argc_out\<close>.
\<close>

definition build_ffmpeg_args_argv ::
  "(nat \<Rightarrow> string option) \<Rightarrow> string \<Rightarrow> TranscodeConfig \<Rightarrow> argv_state option" where
  "build_ffmpeg_args_argv heap input_url config =
     (let a0 = Some (malloc_argv heap, 0);
          a1 = store ''ffmpeg'' a0;
          a2 = (if backend config = TRANSCODE_BACKEND_VAAPI then
                  stores [''-init_hw_device'', ''vaapi=gpu:/dev/dri/renderD128'',
                          ''-filter_hw_device'', ''gpu''] a1
                else if backend config = TRANSCODE_BACKEND_QSV then
                  stores [''-init_hw_device'', ''qsv=hw'', ''-filter_hw_device'', ''hw''] a1
                else a1);
          a3 = store ''-re'' a2;
          a4 = stores [''-i'', input_url] a3;
          a5 = (if codec config = TRANSCODE_CODEC_COPY then
                  stores [''-c:v'', ''copy''] a4
                else
                  let v =
                    (if backend config = TRANSCODE_BACKEND_SOFTWARE then
                       stores [''-c:v'',
                               (if codec config = TRANSCODE_CODEC_HEVC then ''libx265''
                                else if codec config = TRANSCODE_CODEC_AV1 then ''libsvtav1''
                                else ''libx264''),
                               ''-preset'', ''fast'', ''-crf'', ''23''] a4
                     else if backend config = TRANSCODE_BACKEND_NVENC then
                       stores [''-c:v'',
                               (if codec config = TRANSCODE_CODEC_HEVC then ''hevc_nvenc''
                                else if codec config = TRANSCODE_CODEC_AV1 then ''av1_nvenc''
                                else ''h264_nvenc''),
                               ''-preset'', ''p4'', ''-rc'', ''constqp'', ''-qp'', ''23''] a4
                     else if backend config = TRANSCODE_BACKEND_QSV then
                       stores [''-vf'',
                               ''yadif=0:-1:0,format=nv12,hwupload=extra_hw_frames=64,format=qsv'',
                               ''-c:v'',
                               (if codec config = TRANSCODE_CODEC_HEVC then ''hevc_qsv''
                                else if codec config = TRANSCODE_CODEC_AV1 then ''av1_qsv''
                                else ''h264_qsv''),
                               ''-global_quality'', ''23''] a4
                     else if backend config = TRANSCODE_BACKEND_VAAPI then
                       stores [''-vf'', ''format=nv12,hwupload'',
                               ''-c:v'',
                               (if codec config = TRANSCODE_CODEC_HEVC then ''hevc_vaapi''
                                else if codec config = TRANSCODE_CODEC_AV1 then ''av1_vaapi''
                                else ''h264_vaapi''),
                               ''-qp'', ''23''] a4
                     else a4)
                  in
                    (if codec config = TRANSCODE_CODEC_AV1 then
                       (if surround51 config \<noteq> 0 then
                          stores [''-af'', ''channelmap=channel_layout=5.1'',
                                  ''-c:a'', ''libopus'',
                                  ''-mapping_family'', ''1'',
                                  ''-b:a'', default_surround_bitrate] v
                        else
                          stores [''-ac'', ''2'', ''-c:a'', ''libopus'',
                                  ''-b:a'', default_audio_bitrate] v)
                     else
                       (if surround51 config \<noteq> 0 then
                          stores [''-af'', ''channelmap=channel_layout=5.1'',
                                  ''-c:a'', ''aac'',
                                  ''-b:a'', default_aac_surround_bitrate] v
                        else
                          stores [''-ac'', ''2'', ''-c:a'', ''aac'',
                                  ''-b:a'', default_audio_bitrate] v)));
          a6 = store ''-f'' a5;
          a7 = (if codec config = TRANSCODE_CODEC_AV1 then store ''webm'' a6
                else stores [''mp4'', ''-movflags'',
                             ''frag_keyframe+empty_moov+default_base_moof''] a6);
          a8 = store ''pipe:1'' a7
      in terminate a8)"

text \<open>
  What the caller has: the strings \<^verbatim>\<open>execvp\<close> reads from \<^verbatim>\<open>argv\<close>, up to the first
  \<^verbatim>\<open>NULL\<close>, and the count.
\<close>

definition argv_strings :: "string option list \<Rightarrow> string list" where
  "argv_strings argv = map the (takeWhile (\<lambda>p. p \<noteq> None) argv)"

definition returned :: "argv_state option \<Rightarrow> (string list \<times> nat) option" where
  "returned a = map_option (\<lambda>(argv, argc). (argv_strings argv, argc)) a"

text \<open>A buffer whose first cells hold the strings \<open>pre\<close>, with \<^verbatim>\<open>argc\<close> behind them.\<close>

definition written :: "string list \<Rightarrow> string option list \<Rightarrow> argv_state option" where
  "written pre rest = Some (map Some pre @ rest, length pre)"

text \<open>
  Two heaps, one zeroed and one full of pointers to an old string, and a step that counts
  a cell without writing it, which the builder never takes.
\<close>

definition clean_heap :: "nat \<Rightarrow> string option" where
  "clean_heap i = None"

definition stale_heap :: "nat \<Rightarrow> string option" where
  "stale_heap i = Some ''-stale''"

fun skip_cell :: "argv_state option \<Rightarrow> argv_state option" where
  "skip_cell None = None"
| "skip_cell (Some (argv, argc)) = Some (argv, Suc argc)"


section \<open>Persistence as the scheduler sees it (src/db.c, include/db.h)\<close>

text \<open>
  A row of the \<^verbatim>\<open>timers\<close> table with the six columns that
  \<^verbatim>\<open>db_get_pending_timers\<close> selects: the identity and the two instants are 64-bit
  integers in SQLite, the three text columns can be \<^verbatim>\<open>NULL\<close>.
\<close>

record TimerRow =
  id_col :: int
  type_col :: "string option"
  title_col :: "string option"
  channel_num_col :: "string option"
  start_time_col :: int
  end_time_col :: int

text \<open>
  The \<^verbatim>\<open>Timer\<close> struct of \<^verbatim>\<open>db.h\<close> and a row of the \<^verbatim>\<open>recordings\<close> table as
  \<^verbatim>\<open>db_add_recording_entry\<close> writes it. The struct's identity is a C \<^verbatim>\<open>int\<close> and its
  instants are \<^verbatim>\<open>long long\<close> milliseconds; the scheduler only copies and compares
  them, so they are \<open>int\<close> here. The field names carry a prefix because \<open>id\<close> and
  \<open>end_time\<close> are taken.
\<close>

record Timer =
  t_id :: int
  t_type :: string
  t_title :: string
  t_channel_num :: string
  t_start_time :: int
  t_end_time :: int

record Recording =
  r_id :: int
  r_title :: string
  r_channel_name :: string
  r_start_time :: int
  r_end_time :: int
  r_file_path :: string

text \<open>
  \<^verbatim>\<open>sqlite3_column_int\<close> hands back the low 32 bits of the stored integer as a signed
  \<^verbatim>\<open>int\<close>.
\<close>

definition column_int :: "int \<Rightarrow> int" where
  "column_int x = (x + 2 ^ 31) mod 2 ^ 32 - 2 ^ 31"

text \<open>
  The copy of one result row into \<^verbatim>\<open>timers[count]\<close>: the identity through
  \<^verbatim>\<open>sqlite3_column_int\<close>; each text column, or its default when the column is
  \<^verbatim>\<open>NULL\<close>, through \<^verbatim>\<open>strncpy\<close> with the size of the field less one (15, 127 and
  15 characters); the two instants through \<^verbatim>\<open>sqlite3_column_int64\<close>.
\<close>

definition read_timer :: "TimerRow \<Rightarrow> Timer" where
  "read_timer row =
     \<lparr>t_id = column_int (id_col row),
      t_type = take 15 (case type_col row of None \<Rightarrow> ''once'' | Some text \<Rightarrow> text),
      t_title = take 127 (case title_col row of None \<Rightarrow> ''Unknown'' | Some text \<Rightarrow> text),
      t_channel_num = take 15 (case channel_num_col row of None \<Rightarrow> ''0'' | Some text \<Rightarrow> text),
      t_start_time = start_time_col row,
      t_end_time = end_time_col row\<rparr>"

text \<open>
  \<^verbatim>\<open>SELECT ... FROM timers WHERE start_time <= ? AND end_time > ?\<close>, both parameters bound
  to \<^verbatim>\<open>now\<close>; the rows come in table order, each copied into a struct.
\<close>

definition db_get_pending_timers :: "int \<Rightarrow> TimerRow list \<Rightarrow> Timer list" where
  "db_get_pending_timers now tbl =
     map read_timer (filter (\<lambda>row. start_time_col row \<le> now \<and> end_time_col row > now) tbl)"

text \<open>\<^verbatim>\<open>DELETE FROM timers WHERE id = %d\<close>, with the \<^verbatim>\<open>int\<close> printed into the statement.\<close>

definition db_delete_timer :: "int \<Rightarrow> TimerRow list \<Rightarrow> TimerRow list" where
  "db_delete_timer i tbl = filter (\<lambda>row. id_col row \<noteq> i) tbl"

text \<open>
  \<^verbatim>\<open>INSERT INTO recordings (title, channel_name, start_time, end_time, file_path)\<close>;
  the row identity is the one SQLite hands back.
\<close>

definition db_add_recording_entry ::
  "int \<Rightarrow> string \<Rightarrow> string \<Rightarrow> int \<Rightarrow> int \<Rightarrow> string \<Rightarrow> Recording list \<Rightarrow> Recording list" where
  "db_add_recording_entry new_id title channel_name start_ms end_ms file_path tbl =
     tbl @ [\<lparr>r_id = new_id, r_title = title, r_channel_name = channel_name,
             r_start_time = start_ms, r_end_time = end_ms, r_file_path = file_path\<rparr>]"

section \<open>Recording scheduler (src/scheduler.c)\<close>

text \<open>The struct \<^verbatim>\<open>ActiveRecording\<close>; a slot is empty when \<open>pid = 0\<close>.\<close>

record ActiveRecording =
  timer_id :: int
  recording_id :: int
  pid :: int
  end_time :: int
  path :: string

definition MAX_ACTIVE_RECORDINGS :: nat where
  "MAX_ACTIVE_RECORDINGS = 16"

text \<open>
  What the scheduler does to the operating system, in the order it does it. \<open>Fork p\<close>
  is a call of \<^verbatim>\<open>fork()\<close> that returned \<open>p\<close> to the parent (a child exists exactly
  when \<open>p > 0\<close>; the child itself only redirects its output and executes the encoder);
  \<open>Kill p\<close> is \<^verbatim>\<open>kill(p, SIGTERM)\<close>; \<open>Waitpid p\<close> is the blocking
  \<^verbatim>\<open>waitpid(p, NULL, 0)\<close>; \<open>Waitpid_nohang p\<close> is \<^verbatim>\<open>waitpid(p, &status, WNOHANG)\<close>.
\<close>

datatype syscall =
    Mkdir string
  | Fork int
  | Kill int
  | Waitpid int
  | Waitpid_nohang int

text \<open>
  The state the scheduler works on: the static slot array, the two tables, and the
  system calls issued so far. The array has \<open>MAX_ACTIVE_RECORDINGS\<close> elements; every loop
  \<^verbatim>\<open>for (j = 0; j < MAX_ACTIVE_RECORDINGS; j++)\<close> is a recursion over the list of slots.
\<close>

record sched =
  active_recordings :: "ActiveRecording list"
  timers :: "TimerRow list"
  recordings :: "Recording list"
  calls :: "syscall list"

text \<open>
  \<^verbatim>\<open>stop_recording\<close>: the first slot with the recording identity and a non-zero
  \<^verbatim>\<open>pid\<close> is signalled, waited for, and its \<^verbatim>\<open>pid\<close> alone is cleared. The result is
  \<^verbatim>\<open>found\<close> with the slots and the calls made.
\<close>

fun stop_loop :: "int \<Rightarrow> ActiveRecording list \<Rightarrow> bool \<times> ActiveRecording list \<times> syscall list" where
  "stop_loop r [] = (False, [], [])"
| "stop_loop r (s # ss) =
     (if recording_id s = r \<and> pid s \<noteq> 0 then
        (True, s\<lparr>pid := 0\<rparr> # ss, [Kill (pid s), Waitpid (pid s)])
      else
        (case stop_loop r ss of (found, ss', cs) \<Rightarrow> (found, s # ss', cs)))"

definition stop_recording :: "int \<Rightarrow> sched \<Rightarrow> bool \<times> sched" where
  "stop_recording r st =
     (case stop_loop r (active_recordings st) of
        (found, ss', cs) \<Rightarrow>
          (found, st\<lparr>active_recordings := ss', calls := calls st @ cs\<rparr>))"

text \<open>
  \<^verbatim>\<open>stop_recording\<close> is called from the HTTP threads and takes the same mutex as the
  loop. A run of such calls, in the order in which they get the mutex:
\<close>

fun stop_all :: "int list \<Rightarrow> sched \<Rightarrow> sched" where
  "stop_all [] st = st"
| "stop_all (r # rs) st = stop_all rs (snd (stop_recording r st))"

text \<open>
  What the surroundings answer during one pass of the loop: the clock, whether the query
  for pending timers could be prepared, and, for the timer at loop index \<open>i\<close>, the result
  of \<^verbatim>\<open>db_add_recording_entry\<close> (\<open>-1\<close> on failure) and of \<^verbatim>\<open>fork()\<close>; for the slot
  at index \<open>j\<close>, whether the \<^verbatim>\<open>DELETE\<close> statement ran and what the non-blocking
  \<^verbatim>\<open>waitpid\<close> returned. The timer loop holds the mutex only around its two inner
  loops, so calls of \<^verbatim>\<open>stop_recording\<close> can run between them: \<open>stops_mid i\<close> are the
  recording identities stopped after the activity check of timer \<open>i\<close> and before its slot
  is filled, \<open>stops_end i\<close> those stopped after iteration \<open>i\<close>. The second loop runs under
  the mutex as a whole.
\<close>

record env =
  now_sec :: int
  pending_ok :: bool
  add_recording_ret :: "nat \<Rightarrow> int"
  fork_ret :: "nat \<Rightarrow> int"
  delete_ok :: "nat \<Rightarrow> bool"
  wnohang_ret :: "nat \<Rightarrow> int"
  stops_mid :: "nat \<Rightarrow> int list"
  stops_end :: "nat \<Rightarrow> int list"

text \<open>\<^verbatim>\<open>start_scheduler\<close>: \<^verbatim>\<open>memset(active_recordings, 0, ...)\<close>.\<close>

definition zero_slot :: ActiveRecording where
  "zero_slot = \<lparr>timer_id = 0, recording_id = 0, pid = 0, end_time = 0, path = []\<rparr>"

definition start_scheduler :: "TimerRow list \<Rightarrow> Recording list \<Rightarrow> sched" where
  "start_scheduler tms recs =
     \<lparr>active_recordings = replicate MAX_ACTIVE_RECORDINGS zero_slot,
      timers = tms, recordings = recs, calls = []\<rparr>"

text \<open>
  The first inner loop of the timer scan: is some slot's \<^verbatim>\<open>timer_id\<close> equal to the
  timer's identity? The test does not look at \<^verbatim>\<open>pid\<close>.
\<close>

fun is_active :: "ActiveRecording list \<Rightarrow> int \<Rightarrow> bool" where
  "is_active [] tid = False"
| "is_active (s # ss) tid = (if timer_id s = tid then True else is_active ss tid)"

text \<open>
  The second inner loop, run in the parent after \<^verbatim>\<open>fork\<close>: the first slot with
  \<open>pid = 0\<close> takes the five fields and the loop breaks; with no such slot nothing is
  written. \<^verbatim>\<open>strncpy(path, filename, 255)\<close> keeps at most 255 characters.
\<close>

fun fill_free_slot ::
  "ActiveRecording list \<Rightarrow> int \<Rightarrow> int \<Rightarrow> int \<Rightarrow> int \<Rightarrow> string \<Rightarrow> ActiveRecording list" where
  "fill_free_slot [] tid rid p e f = []"
| "fill_free_slot (s # ss) tid rid p e f =
     (if pid s = 0 then
        s\<lparr>timer_id := tid, recording_id := rid, pid := p, end_time := e, path := take 255 f\<rparr> # ss
      else s # fill_free_slot ss tid rid p e f)"

text \<open>
  Decimal text of a \<^verbatim>\<open>long long\<close>, as \<^verbatim>\<open>%lld\<close> prints it (at most 19 digits, so
  20 rounds are enough).
\<close>

fun dec_digits :: "nat \<Rightarrow> nat \<Rightarrow> string" where
  "dec_digits 0 n = []"
| "dec_digits (Suc fuel) n =
     (if n < 10 then [''0123456789'' ! n]
      else dec_digits fuel (n div 10) @ [''0123456789'' ! (n mod 10)])"

definition lld :: "int \<Rightarrow> string" where
  "lld x = (if x < 0 then CHR ''-'' # dec_digits 20 (nat (- x)) else dec_digits 20 (nat x))"

text \<open>
  The output path: the title cut to 127 characters, with slash, backslash and space
  replaced by an underscore; \<^verbatim>\<open>snprintf\<close> into \<^verbatim>\<open>filename[256]\<close> keeps 255 characters.
\<close>

definition safe_title :: "string \<Rightarrow> string" where
  "safe_title title =
     map (\<lambda>c. if c = CHR ''/'' \<or> c = CHR 0x5C \<or> c = CHR '' '' then CHR ''_'' else c)
         (take 127 title)"

definition make_filename :: "string \<Rightarrow> int \<Rightarrow> string" where
  "make_filename title now_ms =
     take 255 (''recordings/'' @ safe_title title @ ''-'' @ lld now_ms @ ''.mp4'')"

text \<open>
  The body of the loop over the pending timers, for the timer \<open>tm\<close> at index \<open>i\<close>.
  A timer found active is skipped. Otherwise the directory is made, the Recording row is
  inserted (on failure the loop continues with the next timer), the encoder is forked,
  and only then, in the parent, a free slot is looked for.
\<close>

definition start_if_inactive :: "env \<Rightarrow> int \<Rightarrow> nat \<Rightarrow> Timer \<Rightarrow> sched \<Rightarrow> sched" where
  "start_if_inactive e now_ms i tm st =
     (if is_active (active_recordings st) (t_id tm) then st
      else
        let filename = make_filename (t_title tm) now_ms;
            st0 = stop_all (stops_mid e i) st;
            st1 = st0\<lparr>calls := calls st0 @ [Mkdir ''recordings'']\<rparr>;
            rec_id = add_recording_ret e i
        in if rec_id = -1 then st1
           else
             let st2 = st1\<lparr>recordings :=
                         db_add_recording_entry rec_id (t_title tm) (t_channel_num tm)
                           now_ms 0 filename (recordings st1)\<rparr>;
                 p = fork_ret e i;
                 st3 = st2\<lparr>calls := calls st2 @ [Fork p]\<rparr>
             in if p > 0 then
                  st3\<lparr>active_recordings :=
                        fill_free_slot (active_recordings st3) (t_id tm) rec_id p
                          (t_end_time tm) filename\<rparr>
                else st3)"

fun pending_loop :: "env \<Rightarrow> int \<Rightarrow> nat \<Rightarrow> Timer list \<Rightarrow> sched \<Rightarrow> sched" where
  "pending_loop e now_ms i [] st = st"
| "pending_loop e now_ms i (tm # tms) st =
     pending_loop e now_ms (Suc i) tms
       (stop_all (stops_end e i) (start_if_inactive e now_ms i tm st))"

text \<open>
  The body of the second loop, for the slot \<open>s\<close> at index \<open>j\<close>; it returns the slot and
  the rest of the state. In the time-reached branch the slot's \<^verbatim>\<open>timer_id\<close> is set to 0
  \<^emph>\<open>before\<close> \<^verbatim>\<open>db_delete_timer(active_recordings[j].timer_id)\<close> reads it.
\<close>

definition finish_slot ::
  "env \<Rightarrow> int \<Rightarrow> nat \<Rightarrow> ActiveRecording \<Rightarrow> sched \<Rightarrow> ActiveRecording \<times> sched" where
  "finish_slot e now_ms j s st =
     (if pid s \<noteq> 0 then
        (if now_ms \<ge> end_time s then
           let st1 = st\<lparr>calls := calls st @ [Kill (pid s), Waitpid (pid s)]\<rparr>;
               s1 = s\<lparr>pid := 0\<rparr>;
               s2 = s1\<lparr>timer_id := 0\<rparr>
           in (s2, if delete_ok e j
                   then st1\<lparr>timers := db_delete_timer (timer_id s2) (timers st1)\<rparr>
                   else st1)
         else
           let st1 = st\<lparr>calls := calls st @ [Waitpid_nohang (pid s)]\<rparr>
           in if wnohang_ret e j \<noteq> 0 then (s\<lparr>pid := 0, timer_id := 0\<rparr>, st1)
              else (s, st1))
      else (s, st))"

fun finish_loop ::
  "env \<Rightarrow> int \<Rightarrow> nat \<Rightarrow> ActiveRecording list \<Rightarrow> sched \<Rightarrow> ActiveRecording list \<times> sched" where
  "finish_loop e now_ms j [] st = ([], st)"
| "finish_loop e now_ms j (s # ss) st =
     (case finish_slot e now_ms j s st of
        (s', st') \<Rightarrow>
          (case finish_loop e now_ms (Suc j) ss st' of
             (ss', st'') \<Rightarrow> (s' # ss', st'')))"

definition finish_scan :: "env \<Rightarrow> int \<Rightarrow> sched \<Rightarrow> sched" where
  "finish_scan e now_ms st =
     (case finish_loop e now_ms 0 (active_recordings st) st of
        (ss', st') \<Rightarrow> st'\<lparr>active_recordings := ss'\<rparr>)"

text \<open>
  One pass of the \<^verbatim>\<open>while (1)\<close> loop of \<^verbatim>\<open>scheduler_thread\<close>, up to the
  \<^verbatim>\<open>sleep\<close>: the pending timers are read once, then started, then the slots are checked.
\<close>

definition pending_scan :: "env \<Rightarrow> int \<Rightarrow> sched \<Rightarrow> sched" where
  "pending_scan e now_ms st =
     (if pending_ok e
      then pending_loop e now_ms 0 (db_get_pending_timers now_ms (timers st)) st
      else st)"

definition scheduler_pass :: "env \<Rightarrow> sched \<Rightarrow> sched" where
  "scheduler_pass e st =
     (let now_ms = now_sec e * 1000
      in finish_scan e now_ms (pending_scan e now_ms st))"

text \<open>\<^verbatim>\<open>get_active_recording_count\<close> and \<^verbatim>\<open>get_active_recording_ids\<close>.\<close>

definition get_active_recording_count :: "sched \<Rightarrow> nat" where
  "get_active_recording_count st = length (filter (\<lambda>s. pid s \<noteq> 0) (active_recordings st))"

definition get_active_recording_ids :: "sched \<Rightarrow> int list" where
  "get_active_recording_ids st =
     map recording_id (filter (\<lambda>s. pid s \<noteq> 0) (active_recordings st))"

text \<open>
  The states the program can be in: the array cleared by \<^verbatim>\<open>start_scheduler\<close>, then any
  number of passes of the loop and of calls of \<^verbatim>\<open>stop_recording\<close>; the HTTP interface
  adds and deletes rows of the two tables at any time.
\<close>

inductive reachable :: "sched \<Rightarrow> bool" where
  started: "reachable (start_scheduler tms recs)"
| pass: "reachable st \<Longrightarrow> reachable (scheduler_pass e st)"
| stopped: "reachable st \<Longrightarrow> reachable (snd (stop_recording r st))"
| timers_edited: "reachable st \<Longrightarrow> reachable (st\<lparr>timers := tms\<rparr>)"
| recordings_edited: "reachable st \<Longrightarrow> reachable (st\<lparr>recordings := recs\<rparr>)"

text \<open>The occupied slots carry pairwise different timer identities.\<close>

definition one_slot_per_timer :: "ActiveRecording list \<Rightarrow> bool" where
  "one_slot_per_timer ss = distinct (map timer_id (filter (\<lambda>s. pid s \<noteq> 0) ss))"

text \<open>A slot after a step that either left it alone or emptied it.\<close>

definition cleared :: "ActiveRecording \<Rightarrow> ActiveRecording \<Rightarrow> bool" where
  "cleared s s' = (s' = s \<or> pid s' = 0)"

section \<open>Discovery and request dispatch (src/discovery.c, src/web.c)\<close>

text \<open>
  \<^verbatim>\<open>get_core_base_url\<close> over the module's \<^verbatim>\<open>core_url\<close> buffer: \<^verbatim>\<open>NULL\<close> while the
  buffer holds the empty string.
\<close>

definition get_core_base_url :: "string \<Rightarrow> string option" where
  "get_core_base_url core_url = (if length core_url = 0 then None else Some core_url)"

text \<open>
  The global \<^verbatim>\<open>app_config\<close> (its fields are \<^verbatim>\<open>backend\<close> and \<^verbatim>\<open>codec\<close> in
  \<^verbatim>\<open>app_config.h\<close>; those names are the selectors of \<open>TranscodeConfig\<close> here).
\<close>

record AppConfig =
  app_backend :: string
  app_codec :: string

text \<open>
  What a handler does with the client socket: \<^verbatim>\<open>send_headers\<close> with status code, status
  text, content type and content length; \<^verbatim>\<open>write\<close> of a body; the encoder spawned by
  \<^verbatim>\<open>transcode_source\<close> with its argument vector and relayed to the socket; \<^verbatim>\<open>close\<close>.
\<close>

datatype action =
    Send_headers int string string nat
  | Write_body string
  | Spawn_relay "string list"
  | Close_socket

text \<open>
  \<^verbatim>\<open>transcode_source\<close> returns \<open>-1\<close> before anything is sent when \<^verbatim>\<open>pipe\<close> or
  \<^verbatim>\<open>fork\<close> fails (\<open>can_spawn\<close> false); otherwise the child executes the encoder with the
  built arguments and the parent relays. \<^verbatim>\<open>transcode_stream\<close> prints the input URL into
  a buffer of 512 bytes first.
\<close>

definition transcode_source :: "bool \<Rightarrow> string \<Rightarrow> TranscodeConfig \<Rightarrow> action list" where
  "transcode_source can_spawn input_source config =
     (if can_spawn then [Spawn_relay (build_ffmpeg_args input_source config)] else [])"

definition transcode_stream ::
  "bool \<Rightarrow> string \<Rightarrow> string \<Rightarrow> TranscodeConfig \<Rightarrow> action list" where
  "transcode_stream can_spawn core_url channel_id config =
     transcode_source can_spawn (take 511 (core_url @ ''/stream/'' @ channel_id)) config"

definition not_discovered_body :: string where
  \<open>not_discovered_body = ''{"error":"ZapLinkCore not discovered yet"}''\<close>

definition no_channel_body :: string where
  \<open>no_channel_body = ''{"error":"No channel specified"}''\<close>

text \<open>The \<^verbatim>\<open>/stream/\<close> branch of \<^verbatim>\<open>client_handler\<close>.\<close>

definition stream_config :: "AppConfig \<Rightarrow> TranscodeConfig" where
  "stream_config cfg =
     \<lparr>backend =
        (if app_backend cfg = ''qsv'' then TRANSCODE_BACKEND_QSV
         else if app_backend cfg = ''nvenc'' then TRANSCODE_BACKEND_NVENC
         else if app_backend cfg = ''vaapi'' then TRANSCODE_BACKEND_VAAPI
         else TRANSCODE_BACKEND_SOFTWARE),
      codec =
        (if app_codec cfg = ''hevc'' then TRANSCODE_CODEC_HEVC
         else if app_codec cfg = ''av1'' then TRANSCODE_CODEC_AV1
         else if app_codec cfg = ''copy'' then TRANSCODE_CODEC_COPY
         else TRANSCODE_CODEC_H264),
      bitrate_kbps = 0,
      surround51 = 0\<rparr>"

definition handle_stream :: "bool \<Rightarrow> string \<Rightarrow> AppConfig \<Rightarrow> string \<Rightarrow> action list" where
  "handle_stream can_spawn core_url cfg req_path =
     (let chan = drop 8 req_path
      in (case get_core_base_url core_url of
            None \<Rightarrow>
              [Send_headers 503 ''Service Unavailable'' ''application/json''
                 (length not_discovered_body),
               Write_body not_discovered_body]
          | Some core \<Rightarrow> transcode_stream can_spawn core chan (stream_config cfg))
         @ [Close_socket])"

text \<open>
  The \<^verbatim>\<open>/transcode/\<close> branch. \<^verbatim>\<open>strtok(p, "/")\<close> yields the non-empty pieces between
  slashes.
\<close>

fun split_tokens :: "string \<Rightarrow> string \<Rightarrow> string list" where
  "split_tokens cur [] = (if cur = [] then [] else [cur])"
| "split_tokens cur (c # cs) =
     (if c = CHR ''/'' then
        (if cur = [] then split_tokens [] cs else cur # split_tokens [] cs)
      else split_tokens (cur @ [c]) cs)"

definition isdigit :: "char \<Rightarrow> bool" where
  "isdigit c = (48 \<le> (of_char c :: nat) \<and> (of_char c :: nat) \<le> 57)"

text \<open>
  \<^verbatim>\<open>atoi\<close> of the C library on a string that starts with a digit, as it is called here:
  the value of the leading digits, which \<^verbatim>\<open>strtol\<close> saturates at \<open>2^63 - 1\<close> and the
  conversion to \<^verbatim>\<open>int\<close> cuts to 32 bits.
\<close>

fun digits_value :: "nat \<Rightarrow> string \<Rightarrow> nat" where
  "digits_value acc [] = acc"
| "digits_value acc (c # cs) =
     (if isdigit c then digits_value (10 * acc + (of_char c - 48)) cs else acc)"

definition atoi :: "string \<Rightarrow> int" where
  "atoi s =
     (let v = min (int (digits_value 0 s)) (2 ^ 63 - 1);
          w = v mod 2 ^ 32
      in if w \<ge> 2 ^ 31 then w - 2 ^ 32 else w)"

definition is_bitrate_token :: "string \<Rightarrow> bool" where
  "is_bitrate_token token =
     (case token of
        c # d # rest \<Rightarrow> (c = CHR ''b'' \<or> c = CHR ''B'') \<and> isdigit d
      | _ \<Rightarrow> False)"

definition apply_token ::
  "string \<Rightarrow> TranscodeConfig \<times> string \<Rightarrow> TranscodeConfig \<times> string" where
  "apply_token token acc =
     (case acc of (tc, channel_id) \<Rightarrow>
        if token = ''software'' then (tc\<lparr>backend := TRANSCODE_BACKEND_SOFTWARE\<rparr>, channel_id)
        else if token = ''qsv'' then (tc\<lparr>backend := TRANSCODE_BACKEND_QSV\<rparr>, channel_id)
        else if token = ''nvenc'' then (tc\<lparr>backend := TRANSCODE_BACKEND_NVENC\<rparr>, channel_id)
        else if token = ''vaapi'' then (tc\<lparr>backend := TRANSCODE_BACKEND_VAAPI\<rparr>, channel_id)
        else if token = ''h264'' then (tc\<lparr>codec := TRANSCODE_CODEC_H264\<rparr>, channel_id)
        else if token = ''hevc'' then (tc\<lparr>codec := TRANSCODE_CODEC_HEVC\<rparr>, channel_id)
        else if token = ''av1'' then (tc\<lparr>codec := TRANSCODE_CODEC_AV1\<rparr>, channel_id)
        else if token = ''copy'' then (tc\<lparr>codec := TRANSCODE_CODEC_COPY\<rparr>, channel_id)
        else if token = ''ac6'' then (tc\<lparr>surround51 := 1\<rparr>, channel_id)
        else if is_bitrate_token token then (tc\<lparr>bitrate_kbps := atoi (tl token)\<rparr>, channel_id)
        else (tc, take 63 token))"

definition handle_transcode :: "bool \<Rightarrow> string \<Rightarrow> string \<Rightarrow> action list" where
  "handle_transcode can_spawn core_url req_path =
     (case fold apply_token (split_tokens [] (drop 11 req_path))
             (\<lparr>backend = TRANSCODE_BACKEND_SOFTWARE, codec = TRANSCODE_CODEC_H264,
               bitrate_kbps = 0, surround51 = 0\<rparr>, [])
      of (tc, channel_id) \<Rightarrow>
        (case get_core_base_url core_url of
           None \<Rightarrow>
             [Send_headers 503 ''Service Unavailable'' ''application/json''
                (length not_discovered_body),
              Write_body not_discovered_body]
         | Some core \<Rightarrow>
             if length channel_id = 0 then
               [Send_headers 400 ''Bad Request'' ''application/json'' (length no_channel_body),
                Write_body no_channel_body]
             else transcode_stream can_spawn core channel_id tc)
        @ [Close_socket])"

text \<open>
  The chain of prefix tests of \<^verbatim>\<open>client_handler\<close> on the request path, in the order of
  the source. \<open>None\<close> stands for the branches that are not part of this development
  (the JSON interface under \<^verbatim>\<open>/api/\<close>, the playlist, static files).
\<close>

definition client_handler ::
  "bool \<Rightarrow> string \<Rightarrow> AppConfig \<Rightarrow> string \<Rightarrow> action list option" where
  "client_handler can_spawn core_url cfg req_path =
     (if take 5 req_path = ''/api/'' then None
      else if take 8 req_path = ''/stream/'' then Some (handle_stream can_spawn core_url cfg req_path)
      else if take 11 req_path = ''/transcode/'' then Some (handle_transcode can_spawn core_url req_path)
      else None)"

text \<open>Whether a handler spawned an encoder.\<close>

fun is_relay :: "action \<Rightarrow> bool" where
  "is_relay (Spawn_relay args) = True"
| "is_relay _ = False"


section \<open>Concrete runs\<close>

text \<open>
  An environment in which every call succeeds, no encoder exits by itself and no
  \<^verbatim>\<open>stop_recording\<close> interferes, with the clock at \<open>t\<close> seconds; a one-shot timer for
  channel 5.1 from 1000 s to 1600 s as a row of the table and as the struct read from
  it, the slot and the Recording row it leads to, and the
  state after the pass that started it; a table of sixteen running recordings and a
  seventeenth timer that is due.
\<close>

definition calm_env :: "int \<Rightarrow> env" where
  "calm_env t =
     \<lparr>now_sec = t, pending_ok = True,
      add_recording_ret = (\<lambda>i. 1 + int i), fork_ret = (\<lambda>i. 4242 + int i),
      delete_ok = (\<lambda>j. True), wnohang_ret = (\<lambda>j. 0),
      stops_mid = (\<lambda>i. []), stops_end = (\<lambda>i. [])\<rparr>"

definition row_A :: TimerRow where
  "row_A = \<lparr>id_col = 1, type_col = Some ''once'', title_col = Some ''News'',
            channel_num_col = Some ''5.1'', start_time_col = 1000000, end_time_col = 1600000\<rparr>"

definition timer_A :: Timer where
  "timer_A = \<lparr>t_id = 1, t_type = ''once'', t_title = ''News'', t_channel_num = ''5.1'',
              t_start_time = 1000000, t_end_time = 1600000\<rparr>"

definition slot_A :: ActiveRecording where
  "slot_A = \<lparr>timer_id = 1, recording_id = 1, pid = 4242, end_time = 1600000,
             path = ''recordings/News-1000000.mp4''\<rparr>"

definition recording_A :: Recording where
  "recording_A = \<lparr>r_id = 1, r_title = ''News'', r_channel_name = ''5.1'',
                  r_start_time = 1000000, r_end_time = 0,
                  r_file_path = ''recordings/News-1000000.mp4''\<rparr>"

definition due_row :: "int \<Rightarrow> TimerRow" where
  "due_row k = \<lparr>id_col = k, type_col = Some ''once'', title_col = Some ''News'',
                channel_num_col = Some ''5.1'', start_time_col = 1000000,
                end_time_col = 1600000\<rparr>"

definition due_timer :: "int \<Rightarrow> Timer" where
  "due_timer k = \<lparr>t_id = k, t_type = ''once'', t_title = ''News'', t_channel_num = ''5.1'',
                  t_start_time = 1000000, t_end_time = 1600000\<rparr>"

definition state_A :: sched where
  "state_A =
     \<lparr>active_recordings = slot_A # replicate 15 zero_slot, timers = [row_A],
      recordings = [recording_A],
      calls = [Mkdir ''recordings'', Fork 4242, Waitpid_nohang 4242]\<rparr>"

definition busy_slot :: "int \<Rightarrow> ActiveRecording" where
  "busy_slot k = \<lparr>timer_id = k, recording_id = k, pid = 5000 + k, end_time = 1600000,
                  path = ''recordings/Show-900000.mp4''\<rparr>"

definition busy_table :: "ActiveRecording list" where
  "busy_table = map busy_slot [1, 2, 3, 4, 5, 6, 7, 8, 9, 10, 11, 12, 13, 14, 15, 16]"

definition full_state :: sched where
  "full_state = \<lparr>active_recordings = busy_table, timers = [due_row 17], recordings = [],
                  calls = []\<rparr>"


section \<open>Properties of the scheduler\<close>

subsection \<open>Slots are only ever filled for an inactive timer, and only emptied otherwise\<close>

lemma is_active_iff: "is_active ss t \<longleftrightarrow> t \<in> timer_id ` set ss"
  by (induction ss) auto

lemma stop_loop_timer_ids: "map timer_id (fst (snd (stop_loop r ss))) = map timer_id ss"
  by (induction ss) (auto split: prod.splits)

lemma cleared_refl: "list_all2 cleared ss ss"
  by (simp add: list_all2_refl cleared_def)

lemma cleared_occupied:
  "list_all2 cleared ss ss' \<Longrightarrow>
   set (filter (\<lambda>s. pid s \<noteq> 0) ss') \<subseteq> set (filter (\<lambda>s. pid s \<noteq> 0) ss)"
  by (induction rule: list_all2_induct) (auto simp: cleared_def)

lemma cleared_inv:
  "list_all2 cleared ss ss' \<Longrightarrow> one_slot_per_timer ss \<Longrightarrow> one_slot_per_timer ss'"
  unfolding one_slot_per_timer_def
proof (induction rule: list_all2_induct)
  case Nil
  then show ?case by simp
next
  case (Cons s ss s' ss')
  have sub: "set (filter (\<lambda>s. pid s \<noteq> 0) ss') \<subseteq> set (filter (\<lambda>s. pid s \<noteq> 0) ss)"
    using Cons.hyps(2) by (rule cleared_occupied)
  have ih: "distinct (map timer_id (filter (\<lambda>s. pid s \<noteq> 0) ss'))"
    using Cons by (auto split: if_splits)
  show ?case
  proof (cases "pid s' = 0")
    case True
    with ih show ?thesis by simp
  next
    case False
    with Cons.hyps(1) have eq: "s' = s" by (simp add: cleared_def)
    have "timer_id s \<notin> timer_id ` set (filter (\<lambda>s. pid s \<noteq> 0) ss)"
      using Cons.prems False eq by auto
    with sub have "timer_id s \<notin> timer_id ` set (filter (\<lambda>s. pid s \<noteq> 0) ss')" by blast
    with ih False eq show ?thesis by simp
  qed
qed

lemma stop_loop_cleared: "list_all2 cleared ss (fst (snd (stop_loop r ss)))"
proof (induction ss)
  case Nil
  then show ?case by simp
next
  case (Cons s ss)
  obtain found ss' cs where sl: "stop_loop r ss = (found, ss', cs)" by (cases "stop_loop r ss")
  have c1: "cleared s (s\<lparr>pid := 0\<rparr>)" and c2: "cleared s s"
    by (simp_all add: cleared_def)
  from Cons sl c1 c2 show ?case by (simp add: cleared_refl)
qed

lemma stop_loop_length: "length (fst (snd (stop_loop r ss))) = length ss"
  using stop_loop_cleared[of ss r] by (simp add: list_all2_lengthD)

lemma stop_loop_inv:
  "one_slot_per_timer ss \<Longrightarrow> one_slot_per_timer (fst (snd (stop_loop r ss)))"
  using stop_loop_cleared cleared_inv by blast

lemma stop_recording_slots:
  "active_recordings (snd (stop_recording r st)) = fst (snd (stop_loop r (active_recordings st)))"
  by (simp add: stop_recording_def split: prod.splits)

lemma stop_recording_tables:
  "timers (snd (stop_recording r st)) = timers st \<and> recordings (snd (stop_recording r st)) = recordings st"
  by (simp add: stop_recording_def split: prod.splits)

lemma stop_all_timer_ids: "map timer_id (active_recordings (stop_all rs st)) = map timer_id (active_recordings st)"
  by (induction rs arbitrary: st) (simp_all add: stop_recording_slots stop_loop_timer_ids)

lemma stop_all_length: "length (active_recordings (stop_all rs st)) = length (active_recordings st)"
  by (induction rs arbitrary: st) (simp_all add: stop_recording_slots stop_loop_length)

lemma stop_all_inv:
  "one_slot_per_timer (active_recordings st) \<Longrightarrow> one_slot_per_timer (active_recordings (stop_all rs st))"
  by (induction rs arbitrary: st) (simp_all add: stop_recording_slots stop_loop_inv)

lemma fill_free_slot_length: "length (fill_free_slot ss t r p e f) = length ss"
  by (induction ss) auto

lemma fill_free_slot_occupied_ids:
  "set (map timer_id (filter (\<lambda>s. pid s \<noteq> 0) (fill_free_slot ss t r p e f)))
     \<subseteq> insert t (set (map timer_id (filter (\<lambda>s. pid s \<noteq> 0) ss)))"
  by (induction ss) auto

lemma fill_free_slot_inv:
  "t \<notin> timer_id ` set ss \<Longrightarrow> one_slot_per_timer ss \<Longrightarrow>
   one_slot_per_timer (fill_free_slot ss t r p e f)"
  unfolding one_slot_per_timer_def
proof (induction ss)
  case Nil
  then show ?case by simp
next
  case (Cons s ss)
  show ?case
  proof (cases "pid s = 0")
    case True
    with Cons.prems show ?thesis by auto
  next
    case False
    have "timer_id s \<notin> set (map timer_id (filter (\<lambda>s. pid s \<noteq> 0) (fill_free_slot ss t r p e f)))"
      using fill_free_slot_occupied_ids[of ss t r p e f] Cons.prems False by auto
    with False Cons show ?thesis by auto
  qed
qed

lemma start_if_inactive_inv:
  "one_slot_per_timer (active_recordings st) \<Longrightarrow>
   one_slot_per_timer (active_recordings (start_if_inactive e now i tm st))"
proof (cases "is_active (active_recordings st) (t_id tm)")
  case True
  assume "one_slot_per_timer (active_recordings st)"
  with True show ?thesis by (simp add: start_if_inactive_def)
next
  case False
  assume inv: "one_slot_per_timer (active_recordings st)"
  let ?st0 = "stop_all (stops_mid e i) st"
  have a: "t_id tm \<notin> timer_id ` set (active_recordings ?st0)"
    using False stop_all_timer_ids[of "stops_mid e i" st]
    by (metis is_active_iff set_map)
  have b: "one_slot_per_timer (active_recordings ?st0)"
    using inv by (rule stop_all_inv)
  show ?thesis
    using False a b fill_free_slot_inv[OF a b]
    by (simp add: start_if_inactive_def Let_def)
qed

lemma pending_loop_inv:
  "one_slot_per_timer (active_recordings st) \<Longrightarrow>
   one_slot_per_timer (active_recordings (pending_loop e now i tms st))"
  by (induction tms arbitrary: i st) (simp_all add: start_if_inactive_inv stop_all_inv)

lemma finish_slot_cleared: "cleared s (fst (finish_slot e now j s st))"
  by (simp add: finish_slot_def Let_def cleared_def)

lemma finish_loop_cleared: "list_all2 cleared ss (fst (finish_loop e now j ss st))"
proof (induction ss arbitrary: j st)
  case Nil
  then show ?case by simp
next
  case (Cons s ss)
  obtain s' st' where fs: "finish_slot e now j s st = (s', st')"
    by (cases "finish_slot e now j s st")
  obtain ss' st'' where fl: "finish_loop e now (Suc j) ss st' = (ss', st'')"
    by (cases "finish_loop e now (Suc j) ss st'")
  have "cleared s s'" using finish_slot_cleared[of s e now j st] fs by simp
  moreover have "list_all2 cleared ss ss'" using Cons[of "Suc j" st'] fl by simp
  ultimately show ?case using fs fl by simp
qed

lemma finish_loop_inv:
  "one_slot_per_timer ss \<Longrightarrow> one_slot_per_timer (fst (finish_loop e now j ss st))"
  using finish_loop_cleared cleared_inv by blast

lemma finish_loop_length: "length (fst (finish_loop e now j ss st)) = length ss"
  using finish_loop_cleared[of ss e now j st] by (simp add: list_all2_lengthD)

lemma finish_scan_slots:
  "active_recordings (finish_scan e now st) = fst (finish_loop e now 0 (active_recordings st) st)"
  by (simp add: finish_scan_def split: prod.splits)

lemma scheduler_pass_inv:
  "one_slot_per_timer (active_recordings st) \<Longrightarrow>
   one_slot_per_timer (active_recordings (scheduler_pass e st))"
  by (simp add: scheduler_pass_def Let_def finish_scan_slots finish_loop_inv pending_scan_def pending_loop_inv)

lemma reachable_inv: "reachable st \<Longrightarrow> one_slot_per_timer (active_recordings st)"
proof (induction rule: reachable.induct)
  case (started tms recs)
  then show ?case by (simp add: start_scheduler_def one_slot_per_timer_def zero_slot_def)
next
  case (pass st e)
  from pass.IH show ?case by (rule scheduler_pass_inv)
next
  case (stopped st r)
  then show ?case by (simp add: stop_recording_slots stop_loop_inv)
qed simp_all


lemma distinct_filter_head:
  assumes "distinct (map f (filter P (x # xs)))" "P x" "n < length xs" "P (xs ! n)"
  shows "f (xs ! n) \<noteq> f x"
proof -
  from assms(1,2) have "f x \<notin> f ` set (filter P xs)" by simp
  moreover have "xs ! n \<in> set (filter P xs)" using assms(3,4) by simp
  ultimately show ?thesis by (metis imageI)
qed

lemma distinct_filter_index:
  "distinct (map f (filter P xs)) \<Longrightarrow> j < length xs \<Longrightarrow> k < length xs \<Longrightarrow>
   P (xs ! j) \<Longrightarrow> P (xs ! k) \<Longrightarrow> f (xs ! j) = f (xs ! k) \<Longrightarrow> j = k"
proof (induction xs arbitrary: j k)
  case Nil
  then show ?case by simp
next
  case (Cons x xs)
  have tl: "distinct (map f (filter P xs))"
    using Cons.prems(1) by (simp split: if_splits)
  show ?case
  proof (cases j)
    case 0
    note j0 = this
    show ?thesis
    proof (cases k)
      case 0
      with j0 show ?thesis by simp
    next
      case (Suc k')
      with j0 Cons.prems distinct_filter_head[of f P x xs k'] show ?thesis by simp
    qed
  next
    case (Suc j')
    note js = this
    show ?thesis
    proof (cases k)
      case 0
      with js Cons.prems distinct_filter_head[of f P x xs j'] show ?thesis by simp
    next
      case (Suc k')
      with js Cons.prems Cons.IH[OF tl, of j' k'] show ?thesis by simp
    qed
  qed
qed

lemma active_no_start:
  "is_active (active_recordings st) (t_id tm) \<Longrightarrow> start_if_inactive e now_ms i tm st = st"
  by (simp add: start_if_inactive_def)

text \<open>
  Claim C3. A timer whose identity is held by an occupied slot is skipped by the timer
  loop: the state is returned as it was, so no \<^verbatim>\<open>fork\<close> is issued and no Recording
  row is inserted. And in every reachable state, two occupied slots with the same timer
  identity are the same slot.
\<close>

theorem no_second_start:
  "((\<exists>s \<in> set (active_recordings st). pid s \<noteq> 0 \<and> timer_id s = t_id tm) \<longrightarrow>
      start_if_inactive e now_ms i tm st = st)
   \<and> (reachable st \<longrightarrow>
        (\<forall>j < length (active_recordings st). \<forall>k < length (active_recordings st).
           pid (active_recordings st ! j) \<noteq> 0 \<and> pid (active_recordings st ! k) \<noteq> 0 \<and>
           timer_id (active_recordings st ! j) = timer_id (active_recordings st ! k) \<longrightarrow> j = k))"
proof (intro conjI impI allI)
  assume "\<exists>s \<in> set (active_recordings st). pid s \<noteq> 0 \<and> timer_id s = t_id tm"
  then have "is_active (active_recordings st) (t_id tm)" by (force simp: is_active_iff)
  then show "start_if_inactive e now_ms i tm st = st" by (rule active_no_start)
next
  fix j k
  assume r: "reachable st" and j: "j < length (active_recordings st)" and k: "k < length (active_recordings st)"
    and h: "pid (active_recordings st ! j) \<noteq> 0 \<and> pid (active_recordings st ! k) \<noteq> 0 \<and>
           timer_id (active_recordings st ! j) = timer_id (active_recordings st ! k)"
  from r have "distinct (map timer_id (filter (\<lambda>s. pid s \<noteq> 0) (active_recordings st)))"
    using reachable_inv by (simp add: one_slot_per_timer_def)
  then show "j = k" using j k h distinct_filter_index[of timer_id "\<lambda>s. pid s \<noteq> 0" "active_recordings st" j k] by blast
qed

lemma stop_loop_found:
  "fst (stop_loop r ss) \<longleftrightarrow> (\<exists>s\<in>set ss. recording_id s = r \<and> pid s \<noteq> 0)"
  by (induction ss) (auto split: prod.splits)

lemma stop_loop_miss: "\<not> fst (stop_loop r ss) \<Longrightarrow> stop_loop r ss = (False, ss, [])"
  by (induction ss) (auto split: prod.splits if_splits)

lemma stop_loop_hit:
  "fst (stop_loop r ss) \<Longrightarrow>
   \<exists>j<length ss. recording_id (ss ! j) = r \<and> pid (ss ! j) \<noteq> 0 \<and>
     stop_loop r ss = (True, ss[j := (ss ! j)\<lparr>pid := 0\<rparr>], [Kill (pid (ss ! j)), Waitpid (pid (ss ! j))])"
proof (induction ss)
  case Nil
  then show ?case by simp
next
  case (Cons s ss)
  show ?case
  proof (cases "recording_id s = r \<and> pid s \<noteq> 0")
    case True
    then have "recording_id ((s # ss) ! 0) = r \<and> pid ((s # ss) ! 0) \<noteq> 0 \<and>
      stop_loop r (s # ss) = (True, (s # ss)[0 := ((s # ss) ! 0)\<lparr>pid := 0\<rparr>],
         [Kill (pid ((s # ss) ! 0)), Waitpid (pid ((s # ss) ! 0))])" by simp
    then show ?thesis by blast
  next
    case False
    with Cons.prems have "fst (stop_loop r ss)" by (auto split: prod.splits)
    from Cons.IH[OF this] obtain j where j: "j < length ss" "recording_id (ss ! j) = r" "pid (ss ! j) \<noteq> 0"
      "stop_loop r ss = (True, ss[j := (ss ! j)\<lparr>pid := 0\<rparr>], [Kill (pid (ss ! j)), Waitpid (pid (ss ! j))])"
      by blast
    with False have "Suc j < length (s # ss) \<and> recording_id ((s # ss) ! Suc j) = r \<and> pid ((s # ss) ! Suc j) \<noteq> 0 \<and>
      stop_loop r (s # ss) = (True, (s # ss)[Suc j := ((s # ss) ! Suc j)\<lparr>pid := 0\<rparr>],
         [Kill (pid ((s # ss) ! Suc j)), Waitpid (pid ((s # ss) ! Suc j))])" by simp
    then show ?thesis by blast
  qed
qed

text \<open>
  Claim C4. \<^verbatim>\<open>stop_recording r\<close> reports found exactly when some occupied slot holds
  \<open>r\<close>. When found, one such slot is signalled with SIGTERM, waited for, and its
  \<^verbatim>\<open>pid\<close> is cleared, and nothing else changes. When not found, the state is returned
  as it was, so no system call is made. In both cases the timers and the recordings
  tables are left as they were.
\<close>

theorem stop_recording_result:
  "(fst (stop_recording r st) \<longleftrightarrow>
      (\<exists>s\<in>set (active_recordings st). recording_id s = r \<and> pid s \<noteq> 0))
   \<and> (fst (stop_recording r st) \<longrightarrow>
        (\<exists>j<length (active_recordings st).
           recording_id (active_recordings st ! j) = r \<and> pid (active_recordings st ! j) \<noteq> 0 \<and>
           snd (stop_recording r st) =
             st\<lparr>active_recordings := (active_recordings st)[j := (active_recordings st ! j)\<lparr>pid := 0\<rparr>],
                calls := calls st @ [Kill (pid (active_recordings st ! j)),
                                     Waitpid (pid (active_recordings st ! j))]\<rparr>))
   \<and> (\<not> fst (stop_recording r st) \<longrightarrow> snd (stop_recording r st) = st)
   \<and> timers (snd (stop_recording r st)) = timers st
   \<and> recordings (snd (stop_recording r st)) = recordings st"
proof -
  have fst_eq: "fst (stop_recording r st) = fst (stop_loop r (active_recordings st))"
    by (simp add: stop_recording_def split: prod.splits)
  have a: "fst (stop_recording r st) \<longleftrightarrow>
      (\<exists>s\<in>set (active_recordings st). recording_id s = r \<and> pid s \<noteq> 0)"
    using fst_eq stop_loop_found by simp
  have b: "fst (stop_recording r st) \<longrightarrow>
        (\<exists>j<length (active_recordings st).
           recording_id (active_recordings st ! j) = r \<and> pid (active_recordings st ! j) \<noteq> 0 \<and>
           snd (stop_recording r st) =
             st\<lparr>active_recordings := (active_recordings st)[j := (active_recordings st ! j)\<lparr>pid := 0\<rparr>],
                calls := calls st @ [Kill (pid (active_recordings st ! j)),
                                     Waitpid (pid (active_recordings st ! j))]\<rparr>)"
  proof
    assume "fst (stop_recording r st)"
    then have "fst (stop_loop r (active_recordings st))" using fst_eq by simp
    from stop_loop_hit[OF this] obtain j where j: "j < length (active_recordings st)"
      "recording_id (active_recordings st ! j) = r" "pid (active_recordings st ! j) \<noteq> 0"
      "stop_loop r (active_recordings st) = (True, (active_recordings st)[j := (active_recordings st ! j)\<lparr>pid := 0\<rparr>],
          [Kill (pid (active_recordings st ! j)), Waitpid (pid (active_recordings st ! j))])"
      by blast
    then have "snd (stop_recording r st) =
             st\<lparr>active_recordings := (active_recordings st)[j := (active_recordings st ! j)\<lparr>pid := 0\<rparr>],
                calls := calls st @ [Kill (pid (active_recordings st ! j)),
                                     Waitpid (pid (active_recordings st ! j))]\<rparr>"
      by (simp add: stop_recording_def)
    with j show "\<exists>j<length (active_recordings st).
           recording_id (active_recordings st ! j) = r \<and> pid (active_recordings st ! j) \<noteq> 0 \<and>
           snd (stop_recording r st) =
             st\<lparr>active_recordings := (active_recordings st)[j := (active_recordings st ! j)\<lparr>pid := 0\<rparr>],
                calls := calls st @ [Kill (pid (active_recordings st ! j)),
                                     Waitpid (pid (active_recordings st ! j))]\<rparr>" by blast
  qed
  have c: "\<not> fst (stop_recording r st) \<longrightarrow> snd (stop_recording r st) = st"
  proof
    assume "\<not> fst (stop_recording r st)"
    then have "\<not> fst (stop_loop r (active_recordings st))" using fst_eq by simp
    from stop_loop_miss[OF this] show "snd (stop_recording r st) = st"
      by (simp add: stop_recording_def)
  qed
  from a b c stop_recording_tables[of r st] show ?thesis by blast
qed



subsection \<open>The array keeps its sixteen slots\<close>

lemma start_if_inactive_length:
  "length (active_recordings (start_if_inactive e now_ms i tm st)) = length (active_recordings st)"
  by (simp add: start_if_inactive_def Let_def fill_free_slot_length stop_all_length)

lemma pending_loop_length:
  "length (active_recordings (pending_loop e now_ms i tms st)) = length (active_recordings st)"
  by (induction tms arbitrary: i st) (simp_all add: start_if_inactive_length stop_all_length)

lemma scheduler_pass_length:
  "length (active_recordings (scheduler_pass e st)) = length (active_recordings st)"
  by (simp add: scheduler_pass_def Let_def finish_scan_slots finish_loop_length pending_scan_def
        pending_loop_length)

lemma reachable_length: "reachable st \<Longrightarrow> length (active_recordings st) = MAX_ACTIVE_RECORDINGS"
proof (induction rule: reachable.induct)
  case (started tms recs)
  then show ?case by (simp add: start_scheduler_def)
next
  case (pass st e)
  then show ?case by (simp add: scheduler_pass_length)
next
  case (stopped st r)
  then show ?case by (simp add: stop_recording_slots stop_loop_length)
qed simp_all

lemma tracked_bound: "reachable st \<Longrightarrow> get_active_recording_count st \<le> MAX_ACTIVE_RECORDINGS"
  using reachable_length[of st] length_filter_le[of "\<lambda>s. pid s \<noteq> 0" "active_recordings st"]
  by (simp add: get_active_recording_count_def)

subsection \<open>What the time-reached branch does\<close>

lemma finish_slot_time_reached:
  "pid s \<noteq> 0 \<Longrightarrow> end_time s \<le> now_ms \<Longrightarrow>
   finish_slot e now_ms j s st =
     (s\<lparr>pid := 0, timer_id := 0\<rparr>,
      st\<lparr>calls := calls st @ [Kill (pid s), Waitpid (pid s)],
         timers := (if delete_ok e j then db_delete_timer 0 (timers st) else timers st)\<rparr>)"
  by (simp add: finish_slot_def Let_def)

subsection \<open>Runs\<close>

lemma dec_digits_numeral:
  "dec_digits (numeral k) n =
     (if n < 10 then [''0123456789'' ! n]
      else dec_digits (pred_numeral k) (n div 10) @ [''0123456789'' ! (n mod 10)])"
  by (simp add: numeral_eq_Suc)

lemma lld_million: "lld 1000000 = ''1000000''"
  by (simp add: lld_def dec_digits_numeral)

lemma filename_A: "make_filename ''News'' 1000000 = ''recordings/News-1000000.mp4''"
  by (simp add: make_filename_def safe_title_def lld_million)

lemma zero_slot_sel: "timer_id zero_slot = 0" "pid zero_slot = 0"
  by (simp_all add: zero_slot_def)

lemma is_active_zero: "is_active (replicate n zero_slot) t = (0 < n \<and> t = 0)"
  by (induction n) (auto simp: zero_slot_def)

lemma fill_zero:
  "fill_free_slot (zero_slot # ss) t r p e f =
     \<lparr>timer_id = t, recording_id = r, pid = p, end_time = e, path = take 255 f\<rparr> # ss"
  by (simp add: zero_slot_def)

lemma finish_slot_zero: "finish_slot e now j zero_slot st = (zero_slot, st)"
  by (simp add: finish_slot_def zero_slot_def)

lemma finish_loop_zero: "finish_loop e now j (replicate n zero_slot) st = (replicate n zero_slot, st)"
  by (induction n arbitrary: j) (simp_all add: finish_slot_zero)

lemma sixteen_zero: "replicate MAX_ACTIVE_RECORDINGS zero_slot = zero_slot # replicate 15 zero_slot"
  by (simp add: MAX_ACTIVE_RECORDINGS_def eval_nat_numeral)

lemma read_A: "read_timer row_A = timer_A"
  by (simp add: read_timer_def row_A_def timer_A_def column_int_def)

lemma due_A: "db_get_pending_timers 1000000 [row_A] = [timer_A]"
  by (simp add: db_get_pending_timers_def read_A) (simp add: row_A_def)

lemma not_due_A: "db_get_pending_timers 1600000 [row_A] = []"
  by (simp add: db_get_pending_timers_def row_A_def)

lemma read_due_17: "read_timer (due_row 17) = due_timer 17"
  by (simp add: read_timer_def due_row_def due_timer_def column_int_def)

lemma scenario_A_started:
  "scheduler_pass (calm_env 1000) (start_scheduler [row_A] []) =
     \<lparr>active_recordings = slot_A # replicate 15 zero_slot, timers = [row_A],
      recordings = [recording_A],
      calls = [Mkdir ''recordings'', Fork 4242, Waitpid_nohang 4242]\<rparr>"
proof -
  have p: "pending_scan (calm_env 1000) 1000000 (start_scheduler [row_A] []) =
     \<lparr>active_recordings = slot_A # replicate 15 zero_slot, timers = [row_A],
      recordings = [recording_A], calls = [Mkdir ''recordings'', Fork 4242]\<rparr>"
    by (simp add: pending_scan_def calm_env_def start_scheduler_def due_A
        timer_A_def start_if_inactive_def is_active_zero sixteen_zero fill_zero filename_A
        db_add_recording_entry_def slot_A_def recording_A_def Let_def zero_slot_sel
        del: fill_free_slot.simps)
  have f: "finish_scan (calm_env 1000) 1000000
     \<lparr>active_recordings = slot_A # replicate 15 zero_slot, timers = [row_A],
      recordings = [recording_A], calls = [Mkdir ''recordings'', Fork 4242]\<rparr> =
     \<lparr>active_recordings = slot_A # replicate 15 zero_slot, timers = [row_A],
      recordings = [recording_A],
      calls = [Mkdir ''recordings'', Fork 4242, Waitpid_nohang 4242]\<rparr>"
    by (simp add: finish_scan_def finish_slot_def finish_loop_zero calm_env_def slot_A_def Let_def)
  show ?thesis
    using p f by (simp add: scheduler_pass_def calm_env_def)
qed

lemma scenario_A_ended:
  "scheduler_pass (calm_env 1600)
     \<lparr>active_recordings = slot_A # replicate 15 zero_slot, timers = [row_A],
      recordings = [recording_A],
      calls = [Mkdir ''recordings'', Fork 4242, Waitpid_nohang 4242]\<rparr> =
     \<lparr>active_recordings = slot_A\<lparr>pid := 0, timer_id := 0\<rparr> # replicate 15 zero_slot,
      timers = [row_A],
      recordings = [recording_A],
      calls = [Mkdir ''recordings'', Fork 4242, Waitpid_nohang 4242, Kill 4242, Waitpid 4242]\<rparr>"
  by (simp add: scheduler_pass_def pending_scan_def calm_env_def not_due_A
        finish_scan_def finish_slot_def finish_loop_zero slot_A_def Let_def)
     (simp add: db_delete_timer_def row_A_def)

text \<open>
  Claim C1, at a concrete run. The timer with identity 1 is started at 1000 s; at 1600 s
  its scheduled end is reached. The pass signals the encoder, waits for it and empties
  the slot, as the claim says. It does not delete the timer: the slot's \<^verbatim>\<open>timer_id\<close>
  has been set to 0 before \<^verbatim>\<open>db_delete_timer\<close> reads it, so the row with identity 1 is
  still in the table, and a query for the timers due at an instant inside its window
  still returns it.
\<close>

theorem expired_timer_not_deleted:
  "timers (scheduler_pass (calm_env 1600)
            (scheduler_pass (calm_env 1000) (start_scheduler [row_A] []))) = [row_A]
   \<and> calls (scheduler_pass (calm_env 1600)
            (scheduler_pass (calm_env 1000) (start_scheduler [row_A] []))) =
       [Mkdir ''recordings'', Fork 4242, Waitpid_nohang 4242, Kill 4242, Waitpid 4242]
   \<and> get_active_recording_count (scheduler_pass (calm_env 1600)
            (scheduler_pass (calm_env 1000) (start_scheduler [row_A] []))) = 0
   \<and> db_get_pending_timers 1599000 (timers (scheduler_pass (calm_env 1600)
            (scheduler_pass (calm_env 1000) (start_scheduler [row_A] [])))) = [timer_A]"
  unfolding scenario_A_started scenario_A_ended
  by (simp add: get_active_recording_count_def slot_A_def zero_slot_def
        db_get_pending_timers_def read_A)
     (simp add: row_A_def)



lemma fill_free_slot_full:
  "\<forall>s\<in>set ss. pid s \<noteq> 0 \<Longrightarrow> fill_free_slot ss t r p e f = ss"
  by (induction ss) auto

lemma start_if_inactive_full:
  assumes "\<not> is_active (active_recordings st) (t_id tm)"
    and "stops_mid e i = []"
    and "add_recording_ret e i \<noteq> -1"
    and "\<forall>s\<in>set (active_recordings st). pid s \<noteq> 0"
  shows "start_if_inactive e now_ms i tm st =
     st\<lparr>recordings :=
          db_add_recording_entry (add_recording_ret e i) (t_title tm) (t_channel_num tm)
            now_ms 0 (make_filename (t_title tm) now_ms) (recordings st),
        calls := calls st @ [Mkdir ''recordings'', Fork (fork_ret e i)]\<rparr>"
  using assms by (simp add: start_if_inactive_def Let_def fill_free_slot_full)

lemma busy_table_full: "\<forall>s\<in>set busy_table. pid s \<noteq> 0"
  by (simp add: busy_table_def busy_slot_def)

lemma busy_table_17: "\<not> is_active busy_table 17"
  by (simp add: busy_table_def busy_slot_def)

lemma full_pending:
  "pending_scan (calm_env 1000) 1000000 full_state =
     full_state\<lparr>recordings :=
          [\<lparr>r_id = 1, r_title = ''News'', r_channel_name = ''5.1'', r_start_time = 1000000,
            r_end_time = 0, r_file_path = ''recordings/News-1000000.mp4''\<rparr>],
        calls := [Mkdir ''recordings'', Fork 4242]\<rparr>"
proof -
  have due: "db_get_pending_timers 1000000 (timers full_state) = [due_timer 17]"
    by (simp add: db_get_pending_timers_def full_state_def read_due_17) (simp add: due_row_def)
  have step: "start_if_inactive (calm_env 1000) 1000000 0 (due_timer 17) full_state =
     full_state\<lparr>recordings :=
          db_add_recording_entry (add_recording_ret (calm_env 1000) 0) (t_title (due_timer 17))
            (t_channel_num (due_timer 17)) 1000000 0
            (make_filename (t_title (due_timer 17)) 1000000) (recordings full_state),
        calls := calls full_state @ [Mkdir ''recordings'', Fork (fork_ret (calm_env 1000) 0)]\<rparr>"
    by (rule start_if_inactive_full)
       (simp_all add: full_state_def due_timer_def busy_table_17 busy_table_full calm_env_def)
  show ?thesis
    unfolding pending_scan_def due
    by (simp add: step) (simp add: calm_env_def due_timer_def filename_A db_add_recording_entry_def full_state_def)
qed

text \<open>
  Claim C2, at a concrete state. All sixteen slots are occupied and timer 17 is due and
  held by no slot. The timer scan leaves the slots as they are, as the claim says, but it
  has inserted a Recording row and forked an encoder for timer 17 before it looked for a
  free slot: the seventeenth process runs and no slot tracks it.
\<close>

theorem full_table_still_spawns:
  "get_active_recording_count full_state = 16
   \<and> calls (pending_scan (calm_env 1000) 1000000 full_state) = [Mkdir ''recordings'', Fork 4242]
   \<and> length (recordings (pending_scan (calm_env 1000) 1000000 full_state)) = 1
   \<and> active_recordings (pending_scan (calm_env 1000) 1000000 full_state) = busy_table"
  unfolding full_pending
  by (simp add: get_active_recording_count_def full_state_def busy_table_def busy_slot_def)


lemma state_A_reachable: "reachable state_A"
proof -
  have "reachable (scheduler_pass (calm_env 1000) (start_scheduler [row_A] []))"
    by (rule reachable.pass) (rule reachable.started)
  then show ?thesis by (simp add: scenario_A_started state_A_def)
qed

lemma state_A_occupied:
  "\<exists>s\<in>set (active_recordings state_A). pid s \<noteq> 0 \<and> timer_id s = t_id timer_A"
  by (simp add: state_A_def slot_A_def timer_A_def)

theorem no_second_start_witness:
  "(\<exists>s\<in>set (active_recordings state_A). pid s \<noteq> 0 \<and> timer_id s = t_id timer_A)
   \<and> start_if_inactive (calm_env 1010) 1010000 0 timer_A state_A = state_A
   \<and> reachable state_A
   \<and> get_active_recording_count state_A = 1"
proof -
  have "get_active_recording_count state_A = 1"
    by (simp add: get_active_recording_count_def state_A_def slot_A_def zero_slot_def)
  with no_second_start [of state_A timer_A "calm_env 1010" 1010000 0]
       state_A_occupied state_A_reachable
  show ?thesis by blast
qed

lemma state_A_holds_1:
  "\<exists>s\<in>set (active_recordings state_A). recording_id s = 1 \<and> pid s \<noteq> 0"
  by (simp add: state_A_def slot_A_def)

lemma state_A_lacks_99:
  "\<not> (\<exists>s\<in>set (active_recordings state_A). recording_id s = 99 \<and> pid s \<noteq> 0)"
  by (simp add: state_A_def slot_A_def zero_slot_def)

theorem stop_recording_result_witness:
  "fst (stop_recording 1 state_A)
   \<and> timers (snd (stop_recording 1 state_A)) = timers state_A
   \<and> recordings (snd (stop_recording 1 state_A)) = recordings state_A
   \<and> \<not> fst (stop_recording 99 state_A)
   \<and> snd (stop_recording 99 state_A) = state_A"
  using stop_recording_result [of 1 state_A] stop_recording_result [of 99 state_A]
        state_A_holds_1 state_A_lacks_99
  by blast







section \<open>Properties of the request dispatch\<close>

lemma stream_not_api: "take 8 p = ''/stream/'' \<Longrightarrow> take 5 p \<noteq> ''/api/''"
proof -
  assume h: "take 8 p = ''/stream/''"
  have "take 5 p = take 5 (take 8 p)" by simp
  with h show ?thesis by simp
qed

lemma transcode_not_api: "take 11 p = ''/transcode/'' \<Longrightarrow> take 5 p \<noteq> ''/api/''"
proof -
  assume h: "take 11 p = ''/transcode/''"
  have "take 5 p = take 5 (take 11 p)" by simp
  with h show ?thesis by simp
qed

lemma transcode_not_stream: "take 11 p = ''/transcode/'' \<Longrightarrow> take 8 p \<noteq> ''/stream/''"
proof -
  assume h: "take 11 p = ''/transcode/''"
  have "take 8 p = take 8 (take 11 p)" by simp
  with h show ?thesis by simp
qed

text \<open>
  Claim C9. While \<^verbatim>\<open>get_core_base_url\<close> returns \<^verbatim>\<open>NULL\<close>, a request under
  \<^verbatim>\<open>/stream/\<close> or \<^verbatim>\<open>/transcode/\<close> is answered with status 503 and the JSON error body,
  the socket is closed, and no encoder is spawned.
\<close>

theorem undiscovered_is_unavailable:
  "get_core_base_url core_url = None \<Longrightarrow>
   take 8 req_path = ''/stream/'' \<or> take 11 req_path = ''/transcode/'' \<Longrightarrow>
   client_handler can_spawn core_url cfg req_path =
     Some [Send_headers 503 ''Service Unavailable'' ''application/json''
             (length not_discovered_body),
           Write_body not_discovered_body,
           Close_socket]
   \<and> (\<forall>acts. client_handler can_spawn core_url cfg req_path = Some acts \<longrightarrow>
          \<not> list_ex is_relay acts)"
proof -
  assume none: "get_core_base_url core_url = None"
    and route: "take 8 req_path = ''/stream/'' \<or> take 11 req_path = ''/transcode/''"
  have "client_handler can_spawn core_url cfg req_path =
     Some [Send_headers 503 ''Service Unavailable'' ''application/json''
             (length not_discovered_body),
           Write_body not_discovered_body,
           Close_socket]"
  proof (cases "take 8 req_path = ''/stream/''")
    case True
    with none stream_not_api[OF True] show ?thesis
      by (simp add: client_handler_def handle_stream_def)
  next
    case False
    with route have t: "take 11 req_path = ''/transcode/''" by simp
    with none False transcode_not_api[OF t] show ?thesis
      by (simp add: client_handler_def handle_transcode_def split: prod.splits)
  qed
  then show ?thesis by simp
qed

theorem undiscovered_is_unavailable_witness:
  "get_core_base_url [] = None
   \<and> client_handler True [] \<lparr>app_backend = ''vaapi'', app_codec = ''hevc''\<rparr> ''/stream/5.1'' =
       Some [Send_headers 503 ''Service Unavailable'' ''application/json'' 42,
             Write_body not_discovered_body, Close_socket]
   \<and> client_handler True [] \<lparr>app_backend = ''vaapi'', app_codec = ''hevc''\<rparr>
         ''/transcode/vaapi/hevc/ac6/5.1'' =
       Some [Send_headers 503 ''Service Unavailable'' ''application/json'' 42,
             Write_body not_discovered_body, Close_socket]"
proof -
  have none: "get_core_base_url [] = None" by (simp add: get_core_base_url_def)
  have len: "length not_discovered_body = 42" by (simp add: not_discovered_body_def)
  from undiscovered_is_unavailable [OF none, of "''/stream/5.1''" True "\<lparr>app_backend = ''vaapi'', app_codec = ''hevc''\<rparr>"]
       undiscovered_is_unavailable [OF none, of "''/transcode/vaapi/hevc/ac6/5.1''" True "\<lparr>app_backend = ''vaapi'', app_codec = ''hevc''\<rparr>"]
       none len
  show ?thesis by simp
qed

lemma discovered_transcode_example:
  "client_handler True ''http://127.0.0.1:18392'' \<lparr>app_backend = ''software'', app_codec = ''h264''\<rparr>
         ''/transcode/vaapi/hevc/ac6/b4000/5.1'' =
     Some [Spawn_relay (build_ffmpeg_args ''http://127.0.0.1:18392/stream/5.1''
             \<lparr>backend = TRANSCODE_BACKEND_VAAPI, codec = TRANSCODE_CODEC_HEVC,
              bitrate_kbps = 4000, surround51 = 1\<rparr>),
           Close_socket]"
  by (simp add: client_handler_def handle_transcode_def apply_token_def is_bitrate_token_def
        isdigit_def atoi_def get_core_base_url_def transcode_stream_def transcode_source_def Let_def)

lemma discovered_stream_example:
  "client_handler True ''http://127.0.0.1:18392'' \<lparr>app_backend = ''vaapi'', app_codec = ''hevc''\<rparr>
         ''/stream/5.1'' =
     Some [Spawn_relay (build_ffmpeg_args ''http://127.0.0.1:18392/stream/5.1''
             \<lparr>backend = TRANSCODE_BACKEND_VAAPI, codec = TRANSCODE_CODEC_HEVC,
              bitrate_kbps = 0, surround51 = 0\<rparr>),
           Close_socket]"
  by (simp add: client_handler_def handle_stream_def stream_config_def
        get_core_base_url_def transcode_stream_def transcode_source_def Let_def)


section \<open>Properties of the encoder argument builder\<close>

lemma argv_length: "length (build_ffmpeg_args u c) \<le> 25"
  by (simp add: build_ffmpeg_args_def)

text \<open>
  Claim C5. Two configurations with the same backend, the same codec and the same
  surround flag (\<^verbatim>\<open>surround51\<close> zero in both or non-zero in both) give the same
  argument vector for every input source, whatever their \<^verbatim>\<open>bitrate_kbps\<close>.
\<close>

theorem bitrate_not_consulted:
  "backend c1 = backend c2 \<Longrightarrow> codec c1 = codec c2 \<Longrightarrow>
   (surround51 c1 \<noteq> 0) = (surround51 c2 \<noteq> 0) \<Longrightarrow>
   build_ffmpeg_args src c1 = build_ffmpeg_args src c2"
  by (simp add: build_ffmpeg_args_def)

theorem bitrate_not_consulted_witness:
  "build_ffmpeg_args ''http://127.0.0.1:18392/stream/5.1''
     \<lparr>backend = TRANSCODE_BACKEND_NVENC, codec = TRANSCODE_CODEC_HEVC, bitrate_kbps = 0, surround51 = 1\<rparr>
   = build_ffmpeg_args ''http://127.0.0.1:18392/stream/5.1''
     \<lparr>backend = TRANSCODE_BACKEND_NVENC, codec = TRANSCODE_CODEC_HEVC, bitrate_kbps = 8000, surround51 = 1\<rparr>"
  by (rule bitrate_not_consulted) simp_all

text \<open>
  Claim C6 as stated fails for \<^verbatim>\<open>codec = copy\<close>: the codec is not av1, yet no AAC
  encoder is emitted.
\<close>

theorem audio_copy_counterexample:
  "\<not> has_pair ''-c:a'' ''aac''
     (build_ffmpeg_args ''http://127.0.0.1:18392/stream/5.1''
        \<lparr>backend = TRANSCODE_BACKEND_SOFTWARE, codec = TRANSCODE_CODEC_COPY,
         bitrate_kbps = 0, surround51 = 0\<rparr>)"
  by (simp add: build_ffmpeg_args_def)

text \<open>
  Claim C6, amended. For every configuration whose codec is not copy: the vector holds
  \<^verbatim>\<open>-c:a libopus\<close> exactly when the codec is av1 and \<^verbatim>\<open>-c:a aac\<close> exactly when it is
  not; it holds the 5.1 channel-layout filter exactly when the surround flag is set and
  \<^verbatim>\<open>-ac 2\<close> exactly when it is not; and it holds \<^verbatim>\<open>-b:a\<close> with the surround
  bitrate constant of the encoder when the flag is set, with the stereo constant
  otherwise. For \<^verbatim>\<open>codec = copy\<close> the vector is the device initialisation, the input,
  \<^verbatim>\<open>-c:v copy\<close> and the container, with no audio argument.
\<close>

theorem audio_selection:
  "(codec c \<noteq> TRANSCODE_CODEC_COPY \<longrightarrow>
      (has_pair ''-c:a'' ''libopus'' (build_ffmpeg_args u c) \<longleftrightarrow> codec c = TRANSCODE_CODEC_AV1) \<and>
      (has_pair ''-c:a'' ''aac'' (build_ffmpeg_args u c) \<longleftrightarrow> codec c \<noteq> TRANSCODE_CODEC_AV1) \<and>
      (has_pair ''-af'' ''channelmap=channel_layout=5.1'' (build_ffmpeg_args u c) \<longleftrightarrow> surround51 c \<noteq> 0) \<and>
      (has_pair ''-ac'' ''2'' (build_ffmpeg_args u c) \<longleftrightarrow> surround51 c = 0) \<and>
      has_pair ''-b:a''
        (if surround51 c \<noteq> 0
         then (if codec c = TRANSCODE_CODEC_AV1 then default_surround_bitrate
               else default_aac_surround_bitrate)
         else default_audio_bitrate)
        (build_ffmpeg_args u c))
   \<and> (codec c = TRANSCODE_CODEC_COPY \<longrightarrow>
        build_ffmpeg_args u c =
          [''ffmpeg''] @
          (if backend c = TRANSCODE_BACKEND_VAAPI then
             [''-init_hw_device'', ''vaapi=gpu:/dev/dri/renderD128'', ''-filter_hw_device'', ''gpu'']
           else if backend c = TRANSCODE_BACKEND_QSV then
             [''-init_hw_device'', ''qsv=hw'', ''-filter_hw_device'', ''hw'']
           else []) @
          [''-re'', ''-i'', u, ''-c:v'', ''copy'', ''-f'', ''mp4'', ''-movflags'',
           ''frag_keyframe+empty_moov+default_base_moof'', ''pipe:1''])"
  by (cases "backend c"; cases "codec c"; simp add: build_ffmpeg_args_def default_audio_bitrate_def default_aac_surround_bitrate_def default_surround_bitrate_def)

theorem audio_selection_witness:
  "has_pair ''-c:a'' ''libopus'' (build_ffmpeg_args ''rec.mp4''
      \<lparr>backend = TRANSCODE_BACKEND_SOFTWARE, codec = TRANSCODE_CODEC_AV1, bitrate_kbps = 0, surround51 = 1\<rparr>)
   \<and> has_pair ''-b:a'' ''384k'' (build_ffmpeg_args ''rec.mp4''
      \<lparr>backend = TRANSCODE_BACKEND_SOFTWARE, codec = TRANSCODE_CODEC_AV1, bitrate_kbps = 0, surround51 = 1\<rparr>)
   \<and> build_ffmpeg_args ''rec.mp4''
      \<lparr>backend = TRANSCODE_BACKEND_NVENC, codec = TRANSCODE_CODEC_COPY, bitrate_kbps = 0, surround51 = 1\<rparr>
      = [''ffmpeg'', ''-re'', ''-i'', ''rec.mp4'', ''-c:v'', ''copy'', ''-f'', ''mp4'', ''-movflags'',
           ''frag_keyframe+empty_moov+default_base_moof'', ''pipe:1'']"
  using audio_selection [of "\<lparr>backend = TRANSCODE_BACKEND_SOFTWARE, codec = TRANSCODE_CODEC_AV1, bitrate_kbps = 0, surround51 = 1\<rparr>" "''rec.mp4''"]
        audio_selection [of "\<lparr>backend = TRANSCODE_BACKEND_NVENC, codec = TRANSCODE_CODEC_COPY, bitrate_kbps = 0, surround51 = 1\<rparr>" "''rec.mp4''"]
  by (simp add: default_surround_bitrate_def)

text \<open>
  Claim C7. For backend vaapi, codec hevc and the surround flag set, the vector is the
  one written out below for every input source; the upload filter, \<^verbatim>\<open>hevc_vaapi\<close>,
  \<^verbatim>\<open>-qp 23\<close>, the 5.1 channel-layout filter and the AAC surround bitrate occur in it in
  that order. For the backends vaapi and quick-sync the first eight arguments are the
  program name, the device initialisation, \<^verbatim>\<open>-re\<close> and then \<^verbatim>\<open>-i\<close> with the input.
\<close>

theorem scenario_C:
  "(backend c = TRANSCODE_BACKEND_VAAPI \<and> codec c = TRANSCODE_CODEC_HEVC \<and> surround51 c \<noteq> 0 \<longrightarrow>
      build_ffmpeg_args u c =
        [''ffmpeg'', ''-init_hw_device'', ''vaapi=gpu:/dev/dri/renderD128'',
         ''-filter_hw_device'', ''gpu'', ''-re'', ''-i'', u,
         ''-vf'', ''format=nv12,hwupload'', ''-c:v'', ''hevc_vaapi'', ''-qp'', ''23'',
         ''-af'', ''channelmap=channel_layout=5.1'', ''-c:a'', ''aac'',
         ''-b:a'', default_aac_surround_bitrate,
         ''-f'', ''mp4'', ''-movflags'', ''frag_keyframe+empty_moov+default_base_moof'',
         ''pipe:1''] \<and>
      subseq [''format=nv12,hwupload'', ''hevc_vaapi'', ''-qp'', ''23'',
              ''channelmap=channel_layout=5.1'', default_aac_surround_bitrate]
             (build_ffmpeg_args u c))
   \<and> (backend c = TRANSCODE_BACKEND_VAAPI \<longrightarrow>
        take 8 (build_ffmpeg_args u c) =
          [''ffmpeg'', ''-init_hw_device'', ''vaapi=gpu:/dev/dri/renderD128'',
           ''-filter_hw_device'', ''gpu'', ''-re'', ''-i'', u])
   \<and> (backend c = TRANSCODE_BACKEND_QSV \<longrightarrow>
        take 8 (build_ffmpeg_args u c) =
          [''ffmpeg'', ''-init_hw_device'', ''qsv=hw'',
           ''-filter_hw_device'', ''hw'', ''-re'', ''-i'', u])"
  by (simp add: build_ffmpeg_args_def)

theorem scenario_C_witness:
  "subseq [''format=nv12,hwupload'', ''hevc_vaapi'', ''-qp'', ''23'',
           ''channelmap=channel_layout=5.1'', ''384k'']
     (build_ffmpeg_args ''http://127.0.0.1:18392/stream/5.1''
        \<lparr>backend = TRANSCODE_BACKEND_VAAPI, codec = TRANSCODE_CODEC_HEVC,
         bitrate_kbps = 0, surround51 = 1\<rparr>)
   \<and> take 8 (build_ffmpeg_args ''http://127.0.0.1:18392/stream/5.1''
        \<lparr>backend = TRANSCODE_BACKEND_QSV, codec = TRANSCODE_CODEC_H264,
         bitrate_kbps = 0, surround51 = 0\<rparr>) =
       [''ffmpeg'', ''-init_hw_device'', ''qsv=hw'', ''-filter_hw_device'', ''hw'',
        ''-re'', ''-i'', ''http://127.0.0.1:18392/stream/5.1'']"
  using scenario_C [of "\<lparr>backend = TRANSCODE_BACKEND_VAAPI, codec = TRANSCODE_CODEC_HEVC,
         bitrate_kbps = 0, surround51 = 1\<rparr>" "''http://127.0.0.1:18392/stream/5.1''"]
        scenario_C [of "\<lparr>backend = TRANSCODE_BACKEND_QSV, codec = TRANSCODE_CODEC_H264,
         bitrate_kbps = 0, surround51 = 0\<rparr>" "''http://127.0.0.1:18392/stream/5.1''"]
  by (simp add: default_aac_surround_bitrate_def)

subsection \<open>The buffer holds the vector, whatever the heap held\<close>

lemma store_written:
  "0 < length rest \<Longrightarrow> store s (written pre rest) = written (pre @ [s]) (drop 1 rest)"
  by (cases rest) (simp_all add: written_def list_update_append)

lemma stores_written:
  "length ss \<le> length rest \<Longrightarrow>
   stores ss (written pre rest) = written (pre @ ss) (drop (length ss) rest)"
proof (induction ss arbitrary: pre rest)
  case Nil
  then show ?case by (simp add: stores_def)
next
  case (Cons s ss)
  then have ne: "0 < length rest" by auto
  have le: "length ss \<le> length (drop 1 rest)" using Cons.prems by simp
  have "stores (s # ss) (written pre rest) = stores ss (store s (written pre rest))"
    by (simp add: stores_def)
  also have "\<dots> = stores ss (written (pre @ [s]) (drop 1 rest))"
    using ne by (simp add: store_written)
  also have "\<dots> = written ((pre @ [s]) @ ss) (drop (length ss) (drop 1 rest))"
    using le by (rule Cons.IH)
  finally show ?case by simp
qed

lemma terminate_written:
  "0 < length rest \<Longrightarrow>
   terminate (written pre rest) = Some (map Some pre @ None # drop 1 rest, length pre)"
  by (cases rest) (simp_all add: written_def list_update_append)

lemma argv_strings_written: "argv_strings (map Some pre @ None # rest) = pre"
  by (induction pre) (simp_all add: argv_strings_def)

lemma malloc_written: "Some (malloc_argv heap, 0) = written [] (malloc_argv heap)"
  by (simp add: written_def)

lemma malloc_length: "length (malloc_argv heap) = 64"
  by (simp add: malloc_argv_def argv_capacity_def)

lemma build_ffmpeg_args_argv_written:
  "build_ffmpeg_args_argv heap u c =
     Some (map Some (build_ffmpeg_args u c) @
             None # drop (Suc (length (build_ffmpeg_args u c))) (malloc_argv heap),
           length (build_ffmpeg_args u c))"
  by (cases "backend c"; cases "codec c"; cases "surround51 c = 0";
      simp add: build_ffmpeg_args_argv_def build_ffmpeg_args_def Let_def malloc_written
        store_written stores_written terminate_written malloc_length)

text \<open>
  A cell counted but not written shows through in what the caller reads, so the
  statement below is one about the builder's writes.
\<close>

lemma unwritten_cell_shows:
  "returned (terminate (store ''-i'' (skip_cell (store ''ffmpeg''
      (Some (malloc_argv clean_heap, 0))))))
   \<noteq> returned (terminate (store ''-i'' (skip_cell (store ''ffmpeg''
      (Some (malloc_argv stale_heap, 0))))))"
  by (simp add: returned_def argv_strings_def malloc_argv_def argv_capacity_def
        clean_heap_def stale_heap_def upt_conv_Cons)

text \<open>
  Claim C8. Two invocations with the same input source and the same configuration work
  on two buffers from \<^verbatim>\<open>malloc\<close>, whose cells hold whatever the two heaps left there.
  The builder reads nothing but its parameters and three constants and writes every
  cell it counts: neither invocation writes outside its 64 cells, and both return the
  same count and the same \<^verbatim>\<open>NULL\<close>-terminated vector, the one given by
  \<open>build_ffmpeg_args\<close> above.
\<close>

theorem build_ffmpeg_args_deterministic:
  "returned (build_ffmpeg_args_argv heap1 u c) = returned (build_ffmpeg_args_argv heap2 u c)
   \<and> returned (build_ffmpeg_args_argv heap1 u c) =
       Some (build_ffmpeg_args u c, length (build_ffmpeg_args u c))"
  by (simp add: build_ffmpeg_args_argv_written returned_def argv_strings_written)

theorem build_ffmpeg_args_deterministic_witness:
  "returned (build_ffmpeg_args_argv clean_heap ''rec.mp4''
      \<lparr>backend = TRANSCODE_BACKEND_QSV, codec = TRANSCODE_CODEC_AV1, bitrate_kbps = 0,
       surround51 = 1\<rparr>)
   = returned (build_ffmpeg_args_argv stale_heap ''rec.mp4''
      \<lparr>backend = TRANSCODE_BACKEND_QSV, codec = TRANSCODE_CODEC_AV1, bitrate_kbps = 0,
       surround51 = 1\<rparr>)"
  using build_ffmpeg_args_deterministic [of clean_heap "''rec.mp4''"
      "\<lparr>backend = TRANSCODE_BACKEND_QSV, codec = TRANSCODE_CODEC_AV1, bitrate_kbps = 0,
        surround51 = 1\<rparr>" stale_heap]
  by simp

end
